theory Spec2Isabelle
  imports Main "HOL-Library.Word"
begin

section \<open>Data model of pkg/staking/participants.go\<close>

text \<open>
  Bytes are 8-bit words. A \<open>types.Address\<close> is a Go array \<open>[20]byte\<close> and a
  \<open>types.Hash\<close> an array \<open>[32]byte\<close>; both are byte lists here, compared with
  \<open>=\<close> as Go compares arrays. \<open>uint64\<close> is \<open>64 word\<close>, \<open>*big.Int\<close> is \<open>int\<close>.
\<close>

type_synonym byte = "8 word"
type_synonym hash = "byte list"
type_synonym address = "byte list"

text \<open>
  Modelled from the spec: the declaration of \<open>NodeType\<close> (a Go string type) and of its
  constants \<open>Sequencer\<close> and \<open>WatchTower\<close> is not part of the given sources. The two
  constants are the two recognised roles; \<open>OtherNodeType s\<close> is any other string \<open>s\<close>.
\<close>

datatype NodeType = Sequencer | WatchTower | OtherNodeType string

text \<open>
  Errors are values. \<open>MethodNotInABI\<close>, \<open>FailedTypeAssertion\<close> and \<open>NodeTypeMismatch\<close>
  are the errors the source creates itself (\<open>errors.New\<close>, \<open>fmt.Errorf\<close>);
  \<open>Foreign\<close> is an error handed back by the chain store, the executor or the ABI codec.
\<close>

datatype error =
    MethodNotInABI string
  | FailedTypeAssertion string
  | NodeTypeMismatch string
  | Foreign string

text \<open>
  \<open>types.Header\<close>: the fields the source reads or sets. The remaining fields of the
  library type are never touched by the source and stay at their Go zero value.
\<close>

record header =
  ParentHash :: hash
  Number :: "64 word"
  Miner :: "byte list"
  Nonce :: "byte list"
  GasLimit :: "64 word"
  Timestamp :: "64 word"
  StateRoot :: hash
  Hash :: hash

text \<open>\<open>types.Transaction\<close>, with the fields the source sets. \<open>To\<close> is a pointer.\<close>

record transaction =
  From :: address
  To :: "address option"
  Value :: int
  Input :: "byte list"
  GasPrice :: int
  Gas :: "64 word"
  TxNonce :: "64 word"

text \<open>\<open>runtime.ExecutionResult\<close>; \<open>Failed()\<close> is \<open>Err != nil\<close>.\<close>

record ExecutionResult =
  ReturnValue :: "byte list"
  Err :: "error option"

definition Failed :: "ExecutionResult \<Rightarrow> bool" where
  "Failed res = (Err res \<noteq> None)"

text \<open>
  What \<open>method.Outputs.Decode\<close> hands back is an \<open>interface{}\<close>: the source asserts it
  to be a map and its entry \<open>"0"\<close> to be a slice of addresses.
\<close>

datatype go_value =
    VMap "(string \<times> go_value) list"
  | VAddresses "address list"
  | VOther

record abi_method =
  ID :: "byte list"
  Outputs_Decode :: "byte list \<Rightarrow> error + go_value"
  Inputs_Encode :: "(string \<times> byte list) list \<Rightarrow> error + byte list"

text \<open>
  The collaborators of \<open>activeParticipantsQuerier\<close>: the chain store
  (\<open>blockchain.Header\<close>, \<open>CalculateGasLimit\<close>), the executor (\<open>BeginTxn\<close>) and its
  transitions of type \<open>'t\<close> (\<open>GetNonce\<close>, \<open>Apply\<close>), the method table of the staking
  ABI, the constant \<open>AddrStakingContract\<close> and the library's rendering of an address
  as a string. They are libraries outside the repository and are parameters here.

  The chain store and the executor are mutable objects that the rest of the node
  works on while an operation runs. \<open>Header\<close>, \<open>CalculateGasLimit\<close> and \<open>BeginTxn\<close> are
  their answers when an operation builds its own context. \<open>Header2\<close>,
  \<open>CalculateGasLimit2\<close> and \<open>BeginTxn2\<close> are their answers when
  \<open>QueryActiveSequencers\<close>, after the role query, reads the head again, computes the
  gas limit again and opens the second transition. Nothing relates the second answers
  to the first: the head may have advanced, and either call may fail on its own.
\<close>

record 't env =
  Header :: header
  CalculateGasLimit :: "64 word \<Rightarrow> error + 64 word"
  BeginTxn :: "hash \<Rightarrow> header \<Rightarrow> address \<Rightarrow> error + 't"
  GetNonce :: "'t \<Rightarrow> address \<Rightarrow> 64 word"
  Apply :: "'t \<Rightarrow> transaction \<Rightarrow> error + ExecutionResult"
  Methods :: "string \<Rightarrow> abi_method option"
  AddrStakingContract :: address
  AddressString :: "address \<Rightarrow> string"
  Header2 :: header
  CalculateGasLimit2 :: "64 word \<Rightarrow> error + 64 word"
  BeginTxn2 :: "hash \<Rightarrow> header \<Rightarrow> address \<Rightarrow> error + 't"

section \<open>Effects: the calls an operation makes\<close>

text \<open>
  Every call that leaves the resolver is recorded, in order. An operation returns the
  list of the calls it made together with its Go result \<open>(value, error)\<close> as a sum.
  The logger is left out: it changes no result.
\<close>

datatype 't event =
    EvHeader
  | EvNow
  | EvCalculateGasLimit "64 word"
  | EvBeginTxn hash header address
  | EvGetNonce 't address
  | EvApply 't transaction

type_synonym ('t, 'a) io = "'t event list \<times> (error + 'a)"

definition io_bind :: "('t, 'a) io \<Rightarrow> ('a \<Rightarrow> ('t, 'b) io) \<Rightarrow> ('t, 'b) io" where
  "io_bind m f =
     (case m of
        (l, Inl e) \<Rightarrow> (l, Inl e)
      | (l, Inr x) \<Rightarrow> (case f x of (l', r) \<Rightarrow> (l @ l', r)))"

definition io_pure :: "error + 'a \<Rightarrow> ('t, 'a) io" where
  "io_pure r = ([], r)"

definition blockchain_Header :: "'t env \<Rightarrow> ('t, header) io" where
  "blockchain_Header asq = ([EvHeader], Inr (Header asq))"

definition time_Now :: "64 word \<Rightarrow> ('t, 64 word) io" where
  "time_Now now = ([EvNow], Inr now)"

definition blockchain_CalculateGasLimit :: "'t env \<Rightarrow> 64 word \<Rightarrow> ('t, 64 word) io" where
  "blockchain_CalculateGasLimit asq n = ([EvCalculateGasLimit n], CalculateGasLimit asq n)"

definition executor_BeginTxn :: "'t env \<Rightarrow> hash \<Rightarrow> header \<Rightarrow> address \<Rightarrow> ('t, 't) io" where
  "executor_BeginTxn asq root h a = ([EvBeginTxn root h a], BeginTxn asq root h a)"

definition blockchain_Header2 :: "'t env \<Rightarrow> ('t, header) io" where
  "blockchain_Header2 asq = ([EvHeader], Inr (Header2 asq))"

definition blockchain_CalculateGasLimit2 :: "'t env \<Rightarrow> 64 word \<Rightarrow> ('t, 64 word) io" where
  "blockchain_CalculateGasLimit2 asq n = ([EvCalculateGasLimit n], CalculateGasLimit2 asq n)"

definition executor_BeginTxn2 :: "'t env \<Rightarrow> hash \<Rightarrow> header \<Rightarrow> address \<Rightarrow> ('t, 't) io" where
  "executor_BeginTxn2 asq root h a = ([EvBeginTxn root h a], BeginTxn2 asq root h a)"

definition t_GetNonce :: "'t env \<Rightarrow> 't \<Rightarrow> address \<Rightarrow> ('t, 64 word) io" where
  "t_GetNonce asq t a = ([EvGetNonce t a], Inr (GetNonce asq t a))"

definition t_Apply :: "'t env \<Rightarrow> 't \<Rightarrow> transaction \<Rightarrow> ('t, ExecutionResult) io" where
  "t_Apply asq t tx = ([EvApply t tx], Apply asq t tx)"

section \<open>Library functions with a fixed meaning\<close>

text \<open>
  \<open>types.BytesToAddress\<close> keeps the last 20 bytes and pads on the left with zeros;
  \<open>Address.Bytes\<close> is the array as a slice.
\<close>

definition BytesToAddress :: "byte list \<Rightarrow> address" where
  "BytesToAddress b =
     (let m = min (length b) 20 in replicate (20 - m) 0 @ drop (length b - m) b)"

definition Bytes :: "address \<Rightarrow> byte list" where
  "Bytes a = a"

definition zeroNonce :: "byte list" where
  "zeroNonce = replicate 8 0"

definition zeroHash :: hash where
  "zeroHash = replicate 32 0"

text \<open>\<open>big.Int.SetBytes\<close>: the buffer read as a big-endian unsigned integer.\<close>

definition SetBytes :: "byte list \<Rightarrow> int" where
  "SetBytes buf = foldl (\<lambda>acc b. acc * 256 + uint b) 0 buf"

section \<open>The contract queries\<close>

definition DecodeParticipants :: "abi_method \<Rightarrow> byte list \<Rightarrow> error + address list" where
  "DecodeParticipants method returnValue =
     (case Outputs_Decode method returnValue of
        Inl err \<Rightarrow> Inl err
      | Inr decodedResults \<Rightarrow>
          (case decodedResults of
             VMap results \<Rightarrow>
               (case map_of results ''0'' of
                  Some (VAddresses web3Addresses) \<Rightarrow> Inr (map (\<lambda>waddr. waddr) web3Addresses)
                | _ \<Rightarrow> Inl (FailedTypeAssertion ''failed type assertion from results[0] to []ethgo.Address''))
           | _ \<Rightarrow> Inl (FailedTypeAssertion ''failed type assertion from decodedResults to map'')))"

definition QuerySequencers :: "'t env \<Rightarrow> 't \<Rightarrow> 64 word \<Rightarrow> address \<Rightarrow> ('t, address list) io" where
  "QuerySequencers asq t gasLimit from =
     (case Methods asq ''GetCurrentSequencers'' of
        None \<Rightarrow> io_pure (Inl (MethodNotInABI ''GetCurrentSequencers''))
      | Some method \<Rightarrow>
          (let selector = ID method in
           io_bind (t_GetNonce asq t from) (\<lambda>nonce.
           io_bind (t_Apply asq t
               \<lparr>From = from, To = Some (AddrStakingContract asq), Value = 0,
                Input = selector, GasPrice = 0, Gas = gasLimit, TxNonce = nonce\<rparr>) (\<lambda>res.
           if Failed res then io_pure (Inl (the (Err res)))
           else io_pure (DecodeParticipants method (ReturnValue res))))))"

definition QuerySequencersInProbation :: "'t env \<Rightarrow> 't \<Rightarrow> 64 word \<Rightarrow> address \<Rightarrow> ('t, address list) io" where
  "QuerySequencersInProbation asq t gasLimit from =
     (case Methods asq ''GetCurrentSequencersInProbation'' of
        None \<Rightarrow> io_pure (Inl (MethodNotInABI ''GetCurrentSequencersInProbation''))
      | Some method \<Rightarrow>
          (let selector = ID method in
           io_bind (t_GetNonce asq t from) (\<lambda>nonce.
           io_bind (t_Apply asq t
               \<lparr>From = from, To = Some (AddrStakingContract asq), Value = 0,
                Input = selector, GasPrice = 0, Gas = gasLimit, TxNonce = nonce\<rparr>) (\<lambda>res.
           if Failed res then io_pure (Inl (the (Err res)))
           else io_pure (DecodeParticipants method (ReturnValue res))))))"

definition QueryWatchtower :: "'t env \<Rightarrow> 't \<Rightarrow> 64 word \<Rightarrow> address \<Rightarrow> ('t, address list) io" where
  "QueryWatchtower asq t gasLimit from =
     (case Methods asq ''GetCurrentWatchtowers'' of
        None \<Rightarrow> io_pure (Inl (MethodNotInABI ''GetCurrentWatchtowers''))
      | Some method \<Rightarrow>
          (let selector = ID method in
           io_bind (t_GetNonce asq t from) (\<lambda>nonce.
           io_bind (t_Apply asq t
               \<lparr>From = from, To = Some (AddrStakingContract asq), Value = 0,
                Input = selector, GasPrice = 0, Gas = gasLimit, TxNonce = nonce\<rparr>) (\<lambda>res.
           if Failed res then io_pure (Inl (the (Err res)))
           else io_pure (DecodeParticipants method (ReturnValue res))))))"

definition QueryParticipantBalance :: "'t env \<Rightarrow> 't \<Rightarrow> 64 word \<Rightarrow> address \<Rightarrow> address \<Rightarrow> ('t, int) io" where
  "QueryParticipantBalance asq t gasLimit from addr =
     (case Methods asq ''GetCurrentAccountStakedAmount'' of
        None \<Rightarrow> io_pure (Inl (MethodNotInABI ''GetCurrentAccountStakedAmount''))
      | Some method \<Rightarrow>
          (let selector = ID method in
           case Inputs_Encode method [(''addr'', Bytes addr)] of
             Inl encodeErr \<Rightarrow> io_pure (Inl encodeErr)
           | Inr encodedInput \<Rightarrow>
               io_bind (t_GetNonce asq t from) (\<lambda>nonce.
               io_bind (t_Apply asq t
                   \<lparr>From = from, To = Some (AddrStakingContract asq), Value = 0,
                    Input = selector @ encodedInput, GasPrice = 0, Gas = gasLimit,
                    TxNonce = nonce\<rparr>) (\<lambda>res.
               if Failed res then io_pure (Inl (the (Err res)))
               else io_pure (Inr (SetBytes (ReturnValue res)))))))"

definition QueryParticipantTotalStakedAmount :: "'t env \<Rightarrow> 't \<Rightarrow> 64 word \<Rightarrow> address \<Rightarrow> ('t, int) io" where
  "QueryParticipantTotalStakedAmount asq t gasLimit from =
     (case Methods asq ''GetCurrentStakedAmount'' of
        None \<Rightarrow> io_pure (Inl (MethodNotInABI ''GetCurrentStakedAmount''))
      | Some method \<Rightarrow>
          (let selector = ID method in
           io_bind (t_GetNonce asq t from) (\<lambda>nonce.
           io_bind (t_Apply asq t
               \<lparr>From = from, To = Some (AddrStakingContract asq), Value = 0,
                Input = selector, GasPrice = 0, Gas = gasLimit, TxNonce = nonce\<rparr>) (\<lambda>res.
           if Failed res then io_pure (Inl (the (Err res)))
           else io_pure (Inr (SetBytes (ReturnValue res)))))))"

subsection \<open>The probation filter of QueryActiveSequencers\<close>

text \<open>
  \<open>QueryActiveSequencers\<close> is called by \<open>Get\<close> only; its reads of the chain store and
  its \<open>BeginTxn\<close> are the second ones of the operation.

  The inner loop compares \<open>addr.String()\<close> with each \<open>probationAddr.String()\<close>; a match
  is the \<open>continue mainLoop\<close>, no match appends \<open>addr\<close> to \<open>toReturn\<close>.
\<close>

fun probationLoop :: "(address \<Rightarrow> string) \<Rightarrow> address \<Rightarrow> address list \<Rightarrow> bool" where
  "probationLoop str addr [] = False"
| "probationLoop str addr (probationAddr # rest) =
     (if str addr = str probationAddr then True else probationLoop str addr rest)"

fun mainLoop :: "(address \<Rightarrow> string) \<Rightarrow> address list \<Rightarrow> address list \<Rightarrow> address list \<Rightarrow> address list" where
  "mainLoop str [] probationAddrs toReturn = toReturn"
| "mainLoop str (addr # addrs) probationAddrs toReturn =
     (if probationLoop str addr probationAddrs
      then mainLoop str addrs probationAddrs toReturn
      else mainLoop str addrs probationAddrs (toReturn @ [addr]))"

definition QueryActiveSequencers :: "'t env \<Rightarrow> 64 word \<Rightarrow> 't \<Rightarrow> 64 word \<Rightarrow> address \<Rightarrow> ('t, address list) io" where
  "QueryActiveSequencers asq now t gasLimit from =
     (let toReturn = [] in
      io_bind (QuerySequencers asq t gasLimit from) (\<lambda>addrs.
      io_bind (blockchain_Header2 asq) (\<lambda>parent.
      io_bind (time_Now now) (\<lambda>ts.
      let header = \<lparr>ParentHash = Hash parent, Number = Number parent + 1,
                    Miner = Bytes from, Nonce = zeroNonce, GasLimit = GasLimit parent,
                    Timestamp = ts, StateRoot = zeroHash, Hash = zeroHash\<rparr> in
      io_bind (blockchain_CalculateGasLimit2 asq (Number header)) (\<lambda>probationGasLimit.
      io_bind (executor_BeginTxn2 asq (StateRoot parent) header from) (\<lambda>transition.
      io_bind (QuerySequencersInProbation asq transition probationGasLimit from) (\<lambda>probationAddrs.
      io_pure (Inr (mainLoop (AddressString asq) addrs probationAddrs toReturn)))))))))"

section \<open>The five operations of activeParticipantsQuerier\<close>

text \<open>
  \<open>now\<close> is the clock reading \<open>uint64(time.Now().Unix())\<close> taken by the operation,
  \<open>now'\<close> the second reading, taken inside \<open>QueryActiveSequencers\<close>.
\<close>

definition Get :: "'t env \<Rightarrow> 64 word \<Rightarrow> 64 word \<Rightarrow> NodeType \<Rightarrow> ('t, address list) io" where
  "Get asq now now' nodeType =
     io_bind (blockchain_Header asq) (\<lambda>parent.
     let minerAddress = BytesToAddress (Miner parent) in
     io_bind (time_Now now) (\<lambda>ts.
     let header = \<lparr>ParentHash = Hash parent, Number = Number parent + 1,
                   Miner = Bytes minerAddress, Nonce = zeroNonce, GasLimit = GasLimit parent,
                   Timestamp = ts, StateRoot = zeroHash, Hash = zeroHash\<rparr> in
     io_bind (blockchain_CalculateGasLimit asq (Number header)) (\<lambda>gasLimit.
     io_bind (executor_BeginTxn asq (StateRoot parent) header minerAddress) (\<lambda>transition.
     case nodeType of
       Sequencer \<Rightarrow> QueryActiveSequencers asq now' transition gasLimit minerAddress
     | WatchTower \<Rightarrow> QueryWatchtower asq transition gasLimit minerAddress
     | OtherNodeType s \<Rightarrow> io_pure (Inl (NodeTypeMismatch s))))))"

fun containsLoop :: "address list \<Rightarrow> address \<Rightarrow> bool" where
  "containsLoop [] addr = False"
| "containsLoop (a # addrs) addr = (if a = addr then True else containsLoop addrs addr)"

definition Contains :: "'t env \<Rightarrow> 64 word \<Rightarrow> 64 word \<Rightarrow> address \<Rightarrow> NodeType \<Rightarrow> ('t, bool) io" where
  "Contains asq now now' addr nodeType =
     io_bind (Get asq now now' nodeType) (\<lambda>addrs.
     io_pure (Inr (containsLoop addrs addr)))"

fun inProbationLoop :: "address list \<Rightarrow> address \<Rightarrow> bool" where
  "inProbationLoop [] a = False"
| "inProbationLoop (probationAddr # rest) a =
     (if Bytes probationAddr = Bytes a then True else inProbationLoop rest a)"

definition InProbation :: "'t env \<Rightarrow> 64 word \<Rightarrow> address \<Rightarrow> ('t, bool) io" where
  "InProbation asq now a =
     io_bind (blockchain_Header asq) (\<lambda>parent.
     let minerAddress = BytesToAddress (Miner parent) in
     io_bind (time_Now now) (\<lambda>ts.
     let header = \<lparr>ParentHash = Hash parent, Number = Number parent + 1,
                   Miner = Bytes minerAddress, Nonce = zeroNonce, GasLimit = GasLimit parent,
                   Timestamp = ts, StateRoot = zeroHash, Hash = zeroHash\<rparr> in
     io_bind (blockchain_CalculateGasLimit asq (Number header)) (\<lambda>gasLimit.
     io_bind (executor_BeginTxn asq (StateRoot parent) header minerAddress) (\<lambda>transition.
     io_bind (QuerySequencersInProbation asq transition gasLimit minerAddress) (\<lambda>probationAddrs.
     io_pure (Inr (inProbationLoop probationAddrs a)))))))"

definition GetBalance :: "'t env \<Rightarrow> 64 word \<Rightarrow> address \<Rightarrow> ('t, int) io" where
  "GetBalance asq now a =
     io_bind (blockchain_Header asq) (\<lambda>parent.
     let minerAddress = BytesToAddress (Miner parent) in
     io_bind (time_Now now) (\<lambda>ts.
     let header = \<lparr>ParentHash = Hash parent, Number = Number parent + 1,
                   Miner = Bytes minerAddress, Nonce = zeroNonce, GasLimit = GasLimit parent,
                   Timestamp = ts, StateRoot = zeroHash, Hash = zeroHash\<rparr> in
     io_bind (blockchain_CalculateGasLimit asq (Number header)) (\<lambda>gasLimit.
     io_bind (executor_BeginTxn asq (StateRoot parent) header minerAddress) (\<lambda>transition.
     io_bind (QueryParticipantBalance asq transition gasLimit minerAddress a) (\<lambda>balance.
     io_pure (Inr balance))))))"

definition GetTotalStakedAmount :: "'t env \<Rightarrow> 64 word \<Rightarrow> ('t, int) io" where
  "GetTotalStakedAmount asq now =
     io_bind (blockchain_Header asq) (\<lambda>parent.
     let minerAddress = BytesToAddress (Miner parent) in
     io_bind (time_Now now) (\<lambda>ts.
     let header = \<lparr>ParentHash = Hash parent, Number = Number parent + 1,
                   Miner = Bytes minerAddress, Nonce = zeroNonce, GasLimit = GasLimit parent,
                   Timestamp = ts, StateRoot = zeroHash, Hash = zeroHash\<rparr> in
     io_bind (blockchain_CalculateGasLimit asq (Number header)) (\<lambda>gasLimit.
     io_bind (executor_BeginTxn asq (StateRoot parent) header minerAddress) (\<lambda>transition.
     io_bind (QueryParticipantTotalStakedAmount asq transition gasLimit minerAddress) (\<lambda>balance.
     io_pure (Inr balance))))))"

section \<open>DumbActiveParticipants\<close>

text \<open>
  The stub implementation of the interface. A nil slice and a nil \<open>*big.Int\<close> are
  \<open>None\<close>; the nil error is the \<open>Inr\<close> side.
\<close>

definition Dumb_Get :: "NodeType \<Rightarrow> error + address list option" where
  "Dumb_Get nodeType = Inr None"

definition Dumb_Contains :: "address \<Rightarrow> NodeType \<Rightarrow> error + bool" where
  "Dumb_Contains a nodeType = Inr True"

definition Dumb_GetBalance :: "address \<Rightarrow> error + int option" where
  "Dumb_GetBalance a = Inr None"

definition Dumb_GetTotalStakedAmount :: "error + int option" where
  "Dumb_GetTotalStakedAmount = Inr None"

definition Dumb_InProbation :: "address \<Rightarrow> error + bool" where
  "Dumb_InProbation a = Inr True"

section \<open>Vocabulary of the statements\<close>

text \<open>
  The header literal that each of the five operations and \<open>QueryActiveSequencers\<close>
  write out, as a function of the head and of the clock reading.
\<close>

definition nextHeader :: "header \<Rightarrow> 64 word \<Rightarrow> header" where
  "nextHeader parent ts =
     \<lparr>ParentHash = Hash parent, Number = Number parent + 1,
      Miner = Bytes (BytesToAddress (Miner parent)), Nonce = zeroNonce,
      GasLimit = GasLimit parent, Timestamp = ts, StateRoot = zeroHash, Hash = zeroHash\<rparr>"

text \<open>
  The header literal of \<open>QueryActiveSequencers\<close>: built from the head as read again,
  with the miner \<open>from\<close> that \<open>Get\<close> took from its own read of the head.
\<close>

definition secondHeader :: "header \<Rightarrow> address \<Rightarrow> 64 word \<Rightarrow> header" where
  "secondHeader parent from ts =
     \<lparr>ParentHash = Hash parent, Number = Number parent + 1,
      Miner = Bytes from, Nonce = zeroNonce,
      GasLimit = GasLimit parent, Timestamp = ts, StateRoot = zeroHash, Hash = zeroHash\<rparr>"

text \<open>The transaction literal of the query functions, for a given call input.\<close>

definition readCall :: "'t env \<Rightarrow> 't \<Rightarrow> 64 word \<Rightarrow> address \<Rightarrow> byte list \<Rightarrow> transaction" where
  "readCall asq t gasLimit from input =
     \<lparr>From = from, To = Some (AddrStakingContract asq), Value = 0, Input = input,
      GasPrice = 0, Gas = gasLimit, TxNonce = GetNonce asq t from\<rparr>"

text \<open>
  The buffer of \<open>n\<close> bytes that represents the unsigned integer \<open>v\<close> in big-endian
  order (most significant byte first); a contract returns \<open>n = 32\<close> bytes.
\<close>

fun be_encode :: "nat \<Rightarrow> nat \<Rightarrow> byte list" where
  "be_encode 0 v = []"
| "be_encode (Suc n) v = be_encode n (v div 256) @ [of_nat (v mod 256)]"

text \<open>The transitions an operation opened, in order, read off its calls.\<close>

fun begin_txns :: "'t event list \<Rightarrow> (hash \<times> header \<times> address) list" where
  "begin_txns [] = []"
| "begin_txns (EvBeginTxn root h a # es) = (root, h, a) # begin_txns es"
| "begin_txns (e # es) = begin_txns es"

section \<open>Example data\<close>

text \<open>
  A small chain: head number 41, sequencers A, B, C, sequencer B in probation,
  watchtowers B and D. A transition is identified by the timestamp of its header.
\<close>

definition addrA :: address where "addrA = replicate 19 0 @ [0xA1]"
definition addrB :: address where "addrB = replicate 19 0 @ [0xB2]"
definition addrC :: address where "addrC = replicate 19 0 @ [0xC3]"
definition addrD :: address where "addrD = replicate 19 0 @ [0xD4]"

definition exHead :: header where
  "exHead = \<lparr>ParentHash = replicate 32 0, Number = 41, Miner = replicate 19 0 @ [9],
     Nonce = replicate 8 0, GasLimit = 5000, Timestamp = 90,
     StateRoot = replicate 32 3, Hash = replicate 32 4\<rparr>"

definition exMethod :: "byte list \<Rightarrow> address list \<Rightarrow> abi_method" where
  "exMethod sel addrs =
     \<lparr>ID = sel, Outputs_Decode = (\<lambda>buf. Inr (VMap [(''0'', VAddresses addrs)])),
      Inputs_Encode = (\<lambda>args. Inr (concat (map snd args)))\<rparr>"

definition exMethods :: "string \<Rightarrow> abi_method option" where
  "exMethods = map_of
     [(''GetCurrentSequencers'', exMethod [1] [addrA, addrB, addrC]),
      (''GetCurrentSequencersInProbation'', exMethod [2] [addrB]),
      (''GetCurrentWatchtowers'', exMethod [3] [addrB, addrD]),
      (''GetCurrentAccountStakedAmount'', exMethod [4] []),
      (''GetCurrentStakedAmount'', exMethod [5] [])]"

definition exApply :: "64 word \<Rightarrow> transaction \<Rightarrow> error + ExecutionResult" where
  "exApply t tx =
     Inr \<lparr>ReturnValue =
            (if Input tx = [5] then be_encode 32 0
             else if take 1 (Input tx) = [4] then be_encode 32 1000000000000000000
             else Input tx),
          Err = None\<rparr>"

definition exString :: "address \<Rightarrow> string" where
  "exString = map (\<lambda>b. char_of (unat b))"

definition exEnv :: "(64 word) env" where
  "exEnv = \<lparr>Header = exHead, CalculateGasLimit = (\<lambda>n. Inr 8000),
     BeginTxn = (\<lambda>root h a. Inr (Timestamp h)), GetNonce = (\<lambda>t a. 0),
     Apply = exApply, Methods = exMethods,
     AddrStakingContract = replicate 19 0 @ [0x10],
     AddressString = exString,
     Header2 = exHead, CalculateGasLimit2 = (\<lambda>n. Inr 8000),
     BeginTxn2 = (\<lambda>root h a. Inr (Timestamp h))\<rparr>"

text \<open>The same chain with a chain store that cannot compute the gas limit.\<close>

definition exEnvNoGas :: "(64 word) env" where
  "exEnvNoGas = exEnv\<lparr>CalculateGasLimit := (\<lambda>n. Inl (Foreign ''missing history''))\<rparr>"

text \<open>The same chain with an executor that fails on the probation call.\<close>

definition exEnvProbationFault :: "(64 word) env" where
  "exEnvProbationFault =
     exEnv\<lparr>Apply := (\<lambda>t tx. if Input tx = [2] then Inl (Foreign ''engine fault'')
                             else exApply t tx)\<rparr>"



section \<open>Lemmas on the call log and the loops\<close>

lemma snd_io_bind:
  "snd (io_bind m f) = (case snd m of Inl e \<Rightarrow> Inl e | Inr x \<Rightarrow> snd (f x))"
  by (cases m) (auto simp: io_bind_def split: sum.splits prod.splits)

lemma fst_io_bind:
  "fst (io_bind m f) = (case snd m of Inl e \<Rightarrow> fst m | Inr x \<Rightarrow> fst m @ fst (f x))"
  by (cases m) (auto simp: io_bind_def split: sum.splits prod.splits)

lemmas io_prims = io_pure_def blockchain_Header_def time_Now_def
  blockchain_CalculateGasLimit_def executor_BeginTxn_def t_GetNonce_def t_Apply_def
  blockchain_Header2_def blockchain_CalculateGasLimit2_def executor_BeginTxn2_def




lemma inj_exString: "inj exString"
proof -
  have "inj (\<lambda>b::byte. char_of (unat b))"
  proof (rule inj_on_inverseI [where g = "\<lambda>c. of_nat (of_char c)"])
    fix b :: byte
    have "unat b < 2 ^ LENGTH(8)" by (rule unsigned_less)
    then have "unat b < 256" by simp
    then show "of_nat (of_char (char_of (unat b))) = b" by simp
  qed
  then show ?thesis by (simp add: exString_def)
qed

lemma ex_addrs_distinct:
  "addrA \<noteq> addrB" "addrA \<noteq> addrC" "addrB \<noteq> addrC" "addrB \<noteq> addrA" "addrC \<noteq> addrB"
  "addrC \<noteq> addrA" "addrD \<noteq> addrB" "addrB \<noteq> addrD"
  by (simp_all add: addrA_def addrB_def addrC_def addrD_def)

lemmas ex_defs = exEnv_def exHead_def exMethods_def exMethod_def exApply_def

lemma ex_QuerySequencers:
  "snd (QuerySequencers exEnv t g m) = Inr [addrA, addrB, addrC]"
  by (simp add: QuerySequencers_def ex_defs snd_io_bind io_prims Failed_def
      DecodeParticipants_def Let_def)

lemma ex_QuerySequencersInProbation:
  "snd (QuerySequencersInProbation exEnv t g m) = Inr [addrB]"
  by (simp add: QuerySequencersInProbation_def ex_defs snd_io_bind io_prims Failed_def
      DecodeParticipants_def Let_def)


lemma ex_fields:
  "Header exEnv = exHead" "CalculateGasLimit exEnv n = Inr 8000"
  "BeginTxn exEnv root h a = Inr (Timestamp h)" "AddressString exEnv = exString"
  "GetNonce exEnv t a = 0" "Methods exEnv = exMethods" "Apply exEnv = exApply"
  "AddrStakingContract exEnv = replicate 19 0 @ [0x10]"
  "Header2 exEnv = exHead" "CalculateGasLimit2 exEnv n = Inr 8000"
  "BeginTxn2 exEnv root h a = Inr (Timestamp h)"
  by (simp_all add: exEnv_def)

lemma exString_eq: "exString a = exString b \<longleftrightarrow> a = b"
  by (rule inj_eq [OF inj_exString])

lemma ex_Get_Sequencer: "snd (Get exEnv 100 200 Sequencer) = Inr [addrA, addrC]"
  by (simp add: Get_def QueryActiveSequencers_def snd_io_bind io_prims Let_def
      ex_QuerySequencers ex_QuerySequencersInProbation ex_fields exString_eq
      ex_addrs_distinct)

lemma containsLoop_iff: "containsLoop addrs a \<longleftrightarrow> a \<in> set addrs"
  by (induction addrs) auto


subsection \<open>Big-endian decoding\<close>

lemma SetBytes_snoc: "SetBytes (buf @ [b]) = SetBytes buf * 256 + uint b"
  by (simp add: SetBytes_def)

lemma SetBytes_nonneg: "0 \<le> SetBytes buf"
  by (induction buf rule: rev_induct) (simp_all add: SetBytes_snoc SetBytes_def)

lemma uint_byte_of_nat: "k < 256 \<Longrightarrow> uint (of_nat k :: byte) = int k"
  by (simp add: unsigned_of_nat take_bit_eq_mod)

lemma SetBytes_be_encode: "v < 256 ^ n \<Longrightarrow> SetBytes (be_encode n v) = int v"
proof (induction n arbitrary: v)
  case 0
  then show ?case by (simp add: SetBytes_def)
next
  case (Suc n)
  from Suc.prems have "v div 256 < 256 ^ n"
    by (simp add: less_mult_imp_div_less mult.commute)
  then have "SetBytes (be_encode n (v div 256)) = int (v div 256)"
    by (rule Suc.IH)
  moreover have "uint (of_nat (v mod 256) :: byte) = int (v mod 256)"
    by (rule uint_byte_of_nat) simp
  ultimately show ?case
    by (simp add: SetBytes_snoc zdiv_int zmod_int)
qed

lemma QueryParticipantBalance_nonneg:
  "snd (QueryParticipantBalance asq t g from a) = Inr v \<Longrightarrow> 0 \<le> v"
  by (auto simp: QueryParticipantBalance_def snd_io_bind io_prims Let_def SetBytes_nonneg
      split: option.splits sum.splits if_splits)

lemma QueryParticipantTotalStakedAmount_nonneg:
  "snd (QueryParticipantTotalStakedAmount asq t g from) = Inr v \<Longrightarrow> 0 \<le> v"
  by (auto simp: QueryParticipantTotalStakedAmount_def snd_io_bind io_prims Let_def
      SetBytes_nonneg split: option.splits sum.splits if_splits)

lemma GetBalance_nonneg: "snd (GetBalance asq now a) = Inr v \<Longrightarrow> 0 \<le> v"
  by (auto simp: GetBalance_def snd_io_bind io_prims Let_def
      split: sum.splits dest: QueryParticipantBalance_nonneg)

lemma GetTotalStakedAmount_nonneg: "snd (GetTotalStakedAmount asq now) = Inr v \<Longrightarrow> 0 \<le> v"
  by (auto simp: GetTotalStakedAmount_def snd_io_bind io_prims Let_def
      split: sum.splits dest: QueryParticipantTotalStakedAmount_nonneg)

subsection \<open>The steps of an operation\<close>

lemma hdr_unfold:
  "\<lparr>ParentHash = Hash parent, Number = Number parent + 1,
     Miner = Bytes (BytesToAddress (Miner parent)), Nonce = zeroNonce,
     GasLimit = GasLimit parent, Timestamp = ts, StateRoot = zeroHash, Hash = zeroHash\<rparr>
   = nextHeader parent ts"
  by (simp add: nextHeader_def)

lemma hdr2_unfold:
  "\<lparr>ParentHash = Hash parent, Number = Number parent + 1,
     Miner = Bytes from, Nonce = zeroNonce,
     GasLimit = GasLimit parent, Timestamp = ts, StateRoot = zeroHash, Hash = zeroHash\<rparr>
   = secondHeader parent from ts"
  by (simp add: secondHeader_def)

lemma nextHeader_second:
  "nextHeader parent ts = secondHeader parent (BytesToAddress (Miner parent)) ts"
  by (simp add: nextHeader_def secondHeader_def)

lemma Number_headers:
  "Number (nextHeader parent ts) = Number parent + 1"
  "Number (secondHeader parent from ts) = Number parent + 1"
  by (simp_all add: nextHeader_def secondHeader_def)


lemma DecodeParticipants_error:
  "Outputs_Decode m rv = Inl e \<Longrightarrow> DecodeParticipants m rv = Inl e"
  by (simp add: DecodeParticipants_def)

lemma DecodeParticipants_Inr:
  "DecodeParticipants m rv = Inr addrs \<Longrightarrow>
   \<exists>kv. Outputs_Decode m rv = Inr (VMap kv) \<and> map_of kv ''0'' = Some (VAddresses addrs)"
  by (auto simp: DecodeParticipants_def split: sum.splits go_value.splits option.splits)

lemma snd_QuerySequencers:
  "snd (QuerySequencers asq t g from) =
     (case Methods asq ''GetCurrentSequencers'' of
        None \<Rightarrow> Inl (MethodNotInABI ''GetCurrentSequencers'')
      | Some m \<Rightarrow>
         (case Apply asq t (readCall asq t g from (ID m)) of
            Inl e \<Rightarrow> Inl e
          | Inr res \<Rightarrow>
             (case Err res of
                Some e \<Rightarrow> Inl e
              | None \<Rightarrow> DecodeParticipants m (ReturnValue res))))"
  by (simp add: QuerySequencers_def snd_io_bind io_prims Let_def readCall_def
      Failed_def split: option.splits sum.splits)

lemma snd_QuerySequencersInProbation:
  "snd (QuerySequencersInProbation asq t g from) =
     (case Methods asq ''GetCurrentSequencersInProbation'' of
        None \<Rightarrow> Inl (MethodNotInABI ''GetCurrentSequencersInProbation'')
      | Some m \<Rightarrow>
         (case Apply asq t (readCall asq t g from (ID m)) of
            Inl e \<Rightarrow> Inl e
          | Inr res \<Rightarrow>
             (case Err res of
                Some e \<Rightarrow> Inl e
              | None \<Rightarrow> DecodeParticipants m (ReturnValue res))))"
  by (simp add: QuerySequencersInProbation_def snd_io_bind io_prims Let_def readCall_def
      Failed_def split: option.splits sum.splits)

lemma snd_QueryWatchtower:
  "snd (QueryWatchtower asq t g from) =
     (case Methods asq ''GetCurrentWatchtowers'' of
        None \<Rightarrow> Inl (MethodNotInABI ''GetCurrentWatchtowers'')
      | Some m \<Rightarrow>
         (case Apply asq t (readCall asq t g from (ID m)) of
            Inl e \<Rightarrow> Inl e
          | Inr res \<Rightarrow>
             (case Err res of
                Some e \<Rightarrow> Inl e
              | None \<Rightarrow> DecodeParticipants m (ReturnValue res))))"
  by (simp add: QueryWatchtower_def snd_io_bind io_prims Let_def readCall_def
      Failed_def split: option.splits sum.splits)

lemma snd_QueryParticipantBalance:
  "snd (QueryParticipantBalance asq t g from a) =
     (case Methods asq ''GetCurrentAccountStakedAmount'' of
        None \<Rightarrow> Inl (MethodNotInABI ''GetCurrentAccountStakedAmount'')
      | Some m \<Rightarrow>
         (case Inputs_Encode m [(''addr'', Bytes a)] of
            Inl e \<Rightarrow> Inl e
          | Inr enc \<Rightarrow>
             (case Apply asq t (readCall asq t g from (ID m @ enc)) of
                Inl e \<Rightarrow> Inl e
              | Inr res \<Rightarrow>
                 (case Err res of
                    Some e \<Rightarrow> Inl e
                  | None \<Rightarrow> Inr (SetBytes (ReturnValue res))))))"
  by (simp add: QueryParticipantBalance_def snd_io_bind io_prims Let_def readCall_def
      Failed_def split: option.splits sum.splits)

lemma snd_QueryParticipantTotalStakedAmount:
  "snd (QueryParticipantTotalStakedAmount asq t g from) =
     (case Methods asq ''GetCurrentStakedAmount'' of
        None \<Rightarrow> Inl (MethodNotInABI ''GetCurrentStakedAmount'')
      | Some m \<Rightarrow>
         (case Apply asq t (readCall asq t g from (ID m)) of
            Inl e \<Rightarrow> Inl e
          | Inr res \<Rightarrow>
             (case Err res of
                Some e \<Rightarrow> Inl e
              | None \<Rightarrow> Inr (SetBytes (ReturnValue res)))))"
  by (simp add: QueryParticipantTotalStakedAmount_def snd_io_bind io_prims Let_def
      readCall_def Failed_def split: option.splits sum.splits)



lemma snd_Get_Sequencer:
  "snd (Get asq now now' Sequencer) =
     (case CalculateGasLimit asq (Number (Header asq) + 1) of
        Inl e \<Rightarrow> Inl e
      | Inr g \<Rightarrow>
         (case BeginTxn asq (StateRoot (Header asq)) (nextHeader (Header asq) now)
                 (BytesToAddress (Miner (Header asq))) of
            Inl e \<Rightarrow> Inl e
          | Inr t1 \<Rightarrow>
             (case snd (QuerySequencers asq t1 g (BytesToAddress (Miner (Header asq)))) of
                Inl e \<Rightarrow> Inl e
              | Inr R \<Rightarrow>
                 (case CalculateGasLimit2 asq (Number (Header2 asq) + 1) of
                    Inl e \<Rightarrow> Inl e
                  | Inr g2 \<Rightarrow>
                     (case BeginTxn2 asq (StateRoot (Header2 asq))
                             (secondHeader (Header2 asq) (BytesToAddress (Miner (Header asq))) now')
                             (BytesToAddress (Miner (Header asq))) of
                        Inl e \<Rightarrow> Inl e
                      | Inr t2 \<Rightarrow>
                         (case snd (QuerySequencersInProbation asq t2 g2
                                     (BytesToAddress (Miner (Header asq)))) of
                            Inl e \<Rightarrow> Inl e
                          | Inr P \<Rightarrow> Inr (mainLoop (AddressString asq) R P [])))))))"
  by (simp add: Get_def QueryActiveSequencers_def snd_io_bind io_prims Let_def hdr2_unfold
      nextHeader_second Number_headers split: sum.splits)

lemma snd_Get_WatchTower:
  "snd (Get asq now now' WatchTower) =
     (case CalculateGasLimit asq (Number (Header asq) + 1) of
        Inl e \<Rightarrow> Inl e
      | Inr g \<Rightarrow>
         (case BeginTxn asq (StateRoot (Header asq)) (nextHeader (Header asq) now)
                 (BytesToAddress (Miner (Header asq))) of
            Inl e \<Rightarrow> Inl e
          | Inr t \<Rightarrow> snd (QueryWatchtower asq t g (BytesToAddress (Miner (Header asq))))))"
  by (simp add: Get_def snd_io_bind io_prims Let_def hdr_unfold split: sum.splits)

lemma snd_InProbation:
  "snd (InProbation asq now a) =
     (case CalculateGasLimit asq (Number (Header asq) + 1) of
        Inl e \<Rightarrow> Inl e
      | Inr g \<Rightarrow>
         (case BeginTxn asq (StateRoot (Header asq)) (nextHeader (Header asq) now)
                 (BytesToAddress (Miner (Header asq))) of
            Inl e \<Rightarrow> Inl e
          | Inr t \<Rightarrow>
             (case snd (QuerySequencersInProbation asq t g
                         (BytesToAddress (Miner (Header asq)))) of
                Inl e \<Rightarrow> Inl e
              | Inr P \<Rightarrow> Inr (inProbationLoop P a))))"
  by (simp add: InProbation_def snd_io_bind io_prims Let_def hdr_unfold split: sum.splits)

lemma snd_GetBalance:
  "snd (GetBalance asq now a) =
     (case CalculateGasLimit asq (Number (Header asq) + 1) of
        Inl e \<Rightarrow> Inl e
      | Inr g \<Rightarrow>
         (case BeginTxn asq (StateRoot (Header asq)) (nextHeader (Header asq) now)
                 (BytesToAddress (Miner (Header asq))) of
            Inl e \<Rightarrow> Inl e
          | Inr t \<Rightarrow>
             snd (QueryParticipantBalance asq t g (BytesToAddress (Miner (Header asq))) a)))"
  by (simp add: GetBalance_def snd_io_bind io_prims Let_def hdr_unfold split: sum.splits)

lemma snd_GetTotalStakedAmount:
  "snd (GetTotalStakedAmount asq now) =
     (case CalculateGasLimit asq (Number (Header asq) + 1) of
        Inl e \<Rightarrow> Inl e
      | Inr g \<Rightarrow>
         (case BeginTxn asq (StateRoot (Header asq)) (nextHeader (Header asq) now)
                 (BytesToAddress (Miner (Header asq))) of
            Inl e \<Rightarrow> Inl e
          | Inr t \<Rightarrow>
             snd (QueryParticipantTotalStakedAmount asq t g
                   (BytesToAddress (Miner (Header asq))))))"
  by (simp add: GetTotalStakedAmount_def snd_io_bind io_prims Let_def hdr_unfold
      split: sum.splits)

lemma snd_Contains_error:
  "snd (Get asq now now' r) = Inl e \<Longrightarrow> snd (Contains asq now now' a r) = Inl e"
  by (simp add: Contains_def snd_io_bind)

lemma exFault_fields:
  "Header exEnvProbationFault = exHead" "CalculateGasLimit exEnvProbationFault n = Inr 8000"
  "BeginTxn exEnvProbationFault root h a = Inr (Timestamp h)"
  "GetNonce exEnvProbationFault t a = 0" "Methods exEnvProbationFault = exMethods"
  "Apply exEnvProbationFault t tx =
     (if Input tx = [2] then Inl (Foreign ''engine fault'') else exApply t tx)"
  "Header2 exEnvProbationFault = exHead" "CalculateGasLimit2 exEnvProbationFault n = Inr 8000"
  "BeginTxn2 exEnvProbationFault root h a = Inr (Timestamp h)"
  by (simp_all add: exEnvProbationFault_def exEnv_def)

lemma exFault_QuerySequencers:
  "snd (QuerySequencers exEnvProbationFault t g m) = Inr [addrA, addrB, addrC]"
  by (simp add: QuerySequencers_def exFault_fields exMethods_def exMethod_def exApply_def
      snd_io_bind io_prims Failed_def DecodeParticipants_def Let_def)

subsection \<open>The transitions an operation opens\<close>

lemma begin_txns_append: "begin_txns (xs @ ys) = begin_txns xs @ begin_txns ys"
  by (induction xs rule: begin_txns.induct) simp_all

lemma begin_txns_QuerySequencers: "begin_txns (fst (QuerySequencers asq t g from)) = []"
  by (simp add: QuerySequencers_def fst_io_bind snd_io_bind io_prims Let_def
      split: option.splits sum.splits)

lemma begin_txns_QuerySequencersInProbation:
  "begin_txns (fst (QuerySequencersInProbation asq t g from)) = []"
  by (simp add: QuerySequencersInProbation_def fst_io_bind snd_io_bind io_prims Let_def
      split: option.splits sum.splits)

lemma begin_txns_QueryWatchtower: "begin_txns (fst (QueryWatchtower asq t g from)) = []"
  by (simp add: QueryWatchtower_def fst_io_bind snd_io_bind io_prims Let_def
      split: option.splits sum.splits)

lemma begin_txns_QueryParticipantBalance:
  "begin_txns (fst (QueryParticipantBalance asq t g from a)) = []"
  by (simp add: QueryParticipantBalance_def fst_io_bind snd_io_bind io_prims Let_def
      split: option.splits sum.splits)

lemma begin_txns_QueryParticipantTotalStakedAmount:
  "begin_txns (fst (QueryParticipantTotalStakedAmount asq t g from)) = []"
  by (simp add: QueryParticipantTotalStakedAmount_def fst_io_bind snd_io_bind io_prims Let_def
      split: option.splits sum.splits)

lemmas begin_txns_queries = begin_txns_append begin_txns_QuerySequencers
  begin_txns_QuerySequencersInProbation begin_txns_QueryWatchtower
  begin_txns_QueryParticipantBalance begin_txns_QueryParticipantTotalStakedAmount

lemma begin_txns_QueryActiveSequencers:
  "begin_txns (fst (QueryActiveSequencers asq now' t g from)) = [] \<or>
   begin_txns (fst (QueryActiveSequencers asq now' t g from)) =
     [(StateRoot (Header2 asq), secondHeader (Header2 asq) from now', from)]"
  by (simp add: QueryActiveSequencers_def fst_io_bind snd_io_bind io_prims Let_def hdr2_unfold
      Number_headers begin_txns_queries split: sum.splits)

subsection \<open>Where an operation fails\<close>

lemma Get_Sequencer_failures:
  "(CalculateGasLimit asq (Number (Header asq) + 1) = Inl e \<longrightarrow> snd (Get asq now now' Sequencer) = Inl e) \<and>
   (\<forall>g. CalculateGasLimit asq (Number (Header asq) + 1) = Inr g \<longrightarrow>
      (BeginTxn asq (StateRoot (Header asq)) (nextHeader (Header asq) now) (BytesToAddress (Miner (Header asq))) = Inl e \<longrightarrow> snd (Get asq now now' Sequencer) = Inl e) \<and>
      (\<forall>t1. BeginTxn asq (StateRoot (Header asq)) (nextHeader (Header asq) now) (BytesToAddress (Miner (Header asq))) = Inr t1 \<longrightarrow>
         (snd (QuerySequencers asq t1 g (BytesToAddress (Miner (Header asq)))) = Inl e \<longrightarrow> snd (Get asq now now' Sequencer) = Inl e) \<and>
         (\<forall>R. snd (QuerySequencers asq t1 g (BytesToAddress (Miner (Header asq)))) = Inr R \<longrightarrow>
            (CalculateGasLimit2 asq (Number (Header2 asq) + 1) = Inl e \<longrightarrow> snd (Get asq now now' Sequencer) = Inl e) \<and>
            (\<forall>g2. CalculateGasLimit2 asq (Number (Header2 asq) + 1) = Inr g2 \<longrightarrow>
               (BeginTxn2 asq (StateRoot (Header2 asq)) (secondHeader (Header2 asq) (BytesToAddress (Miner (Header asq))) now') (BytesToAddress (Miner (Header asq))) = Inl e \<longrightarrow> snd (Get asq now now' Sequencer) = Inl e) \<and>
               (\<forall>t2. BeginTxn2 asq (StateRoot (Header2 asq)) (secondHeader (Header2 asq) (BytesToAddress (Miner (Header asq))) now') (BytesToAddress (Miner (Header asq))) = Inr t2 \<longrightarrow>
                  (snd (QuerySequencersInProbation asq t2 g2 (BytesToAddress (Miner (Header asq)))) = Inl e \<longrightarrow>
                     snd (Get asq now now' Sequencer) = Inl e))))))"
  by (simp add: snd_Get_Sequencer)

lemma Get_WatchTower_failures:
  "(CalculateGasLimit asq (Number (Header asq) + 1) = Inl e \<longrightarrow> snd (Get asq now now' WatchTower) = Inl e) \<and>
   (\<forall>g. CalculateGasLimit asq (Number (Header asq) + 1) = Inr g \<longrightarrow>
      (BeginTxn asq (StateRoot (Header asq)) (nextHeader (Header asq) now) (BytesToAddress (Miner (Header asq))) = Inl e \<longrightarrow> snd (Get asq now now' WatchTower) = Inl e) \<and>
      (\<forall>t. BeginTxn asq (StateRoot (Header asq)) (nextHeader (Header asq) now) (BytesToAddress (Miner (Header asq))) = Inr t \<longrightarrow>
         (snd (QueryWatchtower asq t g (BytesToAddress (Miner (Header asq)))) = Inl e \<longrightarrow> snd (Get asq now now' WatchTower) = Inl e)))"
  by (simp add: snd_Get_WatchTower)

lemma InProbation_failures:
  "(CalculateGasLimit asq (Number (Header asq) + 1) = Inl e \<longrightarrow> snd (InProbation asq now a) = Inl e) \<and>
   (\<forall>g. CalculateGasLimit asq (Number (Header asq) + 1) = Inr g \<longrightarrow>
      (BeginTxn asq (StateRoot (Header asq)) (nextHeader (Header asq) now) (BytesToAddress (Miner (Header asq))) = Inl e \<longrightarrow> snd (InProbation asq now a) = Inl e) \<and>
      (\<forall>t. BeginTxn asq (StateRoot (Header asq)) (nextHeader (Header asq) now) (BytesToAddress (Miner (Header asq))) = Inr t \<longrightarrow>
         (snd (QuerySequencersInProbation asq t g (BytesToAddress (Miner (Header asq)))) = Inl e \<longrightarrow> snd (InProbation asq now a) = Inl e)))"
  by (simp add: snd_InProbation)

lemma GetBalance_failures:
  "(CalculateGasLimit asq (Number (Header asq) + 1) = Inl e \<longrightarrow> snd (GetBalance asq now a) = Inl e) \<and>
   (\<forall>g. CalculateGasLimit asq (Number (Header asq) + 1) = Inr g \<longrightarrow>
      (BeginTxn asq (StateRoot (Header asq)) (nextHeader (Header asq) now) (BytesToAddress (Miner (Header asq))) = Inl e \<longrightarrow> snd (GetBalance asq now a) = Inl e) \<and>
      (\<forall>t. BeginTxn asq (StateRoot (Header asq)) (nextHeader (Header asq) now) (BytesToAddress (Miner (Header asq))) = Inr t \<longrightarrow>
         (snd (QueryParticipantBalance asq t g (BytesToAddress (Miner (Header asq))) a) = Inl e \<longrightarrow> snd (GetBalance asq now a) = Inl e)))"
  by (simp add: snd_GetBalance)

lemma GetTotalStakedAmount_failures:
  "(CalculateGasLimit asq (Number (Header asq) + 1) = Inl e \<longrightarrow> snd (GetTotalStakedAmount asq now) = Inl e) \<and>
   (\<forall>g. CalculateGasLimit asq (Number (Header asq) + 1) = Inr g \<longrightarrow>
      (BeginTxn asq (StateRoot (Header asq)) (nextHeader (Header asq) now) (BytesToAddress (Miner (Header asq))) = Inl e \<longrightarrow> snd (GetTotalStakedAmount asq now) = Inl e) \<and>
      (\<forall>t. BeginTxn asq (StateRoot (Header asq)) (nextHeader (Header asq) now) (BytesToAddress (Miner (Header asq))) = Inr t \<longrightarrow>
         (snd (QueryParticipantTotalStakedAmount asq t g (BytesToAddress (Miner (Header asq)))) = Inl e \<longrightarrow> snd (GetTotalStakedAmount asq now) = Inl e)))"
  by (simp add: snd_GetTotalStakedAmount)

lemma Contains_failures:
  "(\<forall>r. snd (Get asq now now' r) = Inl e \<longrightarrow> snd (Contains asq now now' a r) = Inl e)"
  by (simp add: snd_Contains_error)

lemma QuerySequencers_failures:
  "(Methods asq ''GetCurrentSequencers'' = None \<longrightarrow> snd (QuerySequencers asq t g from) = Inl (MethodNotInABI ''GetCurrentSequencers'')) \<and>
   (\<forall>m. Methods asq ''GetCurrentSequencers'' = Some m \<longrightarrow>
      (Apply asq t (readCall asq t g from (ID m)) = Inl e \<longrightarrow> snd (QuerySequencers asq t g from) = Inl e) \<and>
      (\<forall>res. Apply asq t (readCall asq t g from (ID m)) = Inr res \<longrightarrow>
         (Err res = Some e \<longrightarrow> snd (QuerySequencers asq t g from) = Inl e) \<and>
         (Err res = None \<longrightarrow> snd (QuerySequencers asq t g from) = DecodeParticipants m (ReturnValue res))))"
  by (simp add: snd_QuerySequencers)

lemma QuerySequencersInProbation_failures:
  "(Methods asq ''GetCurrentSequencersInProbation'' = None \<longrightarrow> snd (QuerySequencersInProbation asq t g from) = Inl (MethodNotInABI ''GetCurrentSequencersInProbation'')) \<and>
   (\<forall>m. Methods asq ''GetCurrentSequencersInProbation'' = Some m \<longrightarrow>
      (Apply asq t (readCall asq t g from (ID m)) = Inl e \<longrightarrow> snd (QuerySequencersInProbation asq t g from) = Inl e) \<and>
      (\<forall>res. Apply asq t (readCall asq t g from (ID m)) = Inr res \<longrightarrow>
         (Err res = Some e \<longrightarrow> snd (QuerySequencersInProbation asq t g from) = Inl e) \<and>
         (Err res = None \<longrightarrow> snd (QuerySequencersInProbation asq t g from) = DecodeParticipants m (ReturnValue res))))"
  by (simp add: snd_QuerySequencersInProbation)

lemma QueryWatchtower_failures:
  "(Methods asq ''GetCurrentWatchtowers'' = None \<longrightarrow> snd (QueryWatchtower asq t g from) = Inl (MethodNotInABI ''GetCurrentWatchtowers'')) \<and>
   (\<forall>m. Methods asq ''GetCurrentWatchtowers'' = Some m \<longrightarrow>
      (Apply asq t (readCall asq t g from (ID m)) = Inl e \<longrightarrow> snd (QueryWatchtower asq t g from) = Inl e) \<and>
      (\<forall>res. Apply asq t (readCall asq t g from (ID m)) = Inr res \<longrightarrow>
         (Err res = Some e \<longrightarrow> snd (QueryWatchtower asq t g from) = Inl e) \<and>
         (Err res = None \<longrightarrow> snd (QueryWatchtower asq t g from) = DecodeParticipants m (ReturnValue res))))"
  by (simp add: snd_QueryWatchtower)

lemma QueryParticipantBalance_failures:
  "(Methods asq ''GetCurrentAccountStakedAmount'' = None \<longrightarrow> snd (QueryParticipantBalance asq t g from a) = Inl (MethodNotInABI ''GetCurrentAccountStakedAmount'')) \<and>
   (\<forall>m. Methods asq ''GetCurrentAccountStakedAmount'' = Some m \<longrightarrow>
      (Inputs_Encode m [(''addr'', Bytes a)] = Inl e \<longrightarrow> snd (QueryParticipantBalance asq t g from a) = Inl e) \<and>
      (\<forall>enc. Inputs_Encode m [(''addr'', Bytes a)] = Inr enc \<longrightarrow>
         (Apply asq t (readCall asq t g from (ID m @ enc)) = Inl e \<longrightarrow> snd (QueryParticipantBalance asq t g from a) = Inl e) \<and>
         (\<forall>res. Apply asq t (readCall asq t g from (ID m @ enc)) = Inr res \<longrightarrow>
            (Err res = Some e \<longrightarrow> snd (QueryParticipantBalance asq t g from a) = Inl e) \<and>
            (Err res = None \<longrightarrow> snd (QueryParticipantBalance asq t g from a) = Inr (SetBytes (ReturnValue res))))))"
  by (simp add: snd_QueryParticipantBalance)

lemma QueryParticipantTotalStakedAmount_failures:
  "(Methods asq ''GetCurrentStakedAmount'' = None \<longrightarrow> snd (QueryParticipantTotalStakedAmount asq t g from) = Inl (MethodNotInABI ''GetCurrentStakedAmount'')) \<and>
   (\<forall>m. Methods asq ''GetCurrentStakedAmount'' = Some m \<longrightarrow>
      (Apply asq t (readCall asq t g from (ID m)) = Inl e \<longrightarrow> snd (QueryParticipantTotalStakedAmount asq t g from) = Inl e) \<and>
      (\<forall>res. Apply asq t (readCall asq t g from (ID m)) = Inr res \<longrightarrow>
         (Err res = Some e \<longrightarrow> snd (QueryParticipantTotalStakedAmount asq t g from) = Inl e) \<and>
         (Err res = None \<longrightarrow> snd (QueryParticipantTotalStakedAmount asq t g from) = Inr (SetBytes (ReturnValue res)))))"
  by (simp add: snd_QueryParticipantTotalStakedAmount)

lemma DecodeParticipants_failures:
  "(Outputs_Decode m rv = Inl e \<longrightarrow> DecodeParticipants m rv = Inl e) \<and>
   (\<forall>addrs. DecodeParticipants m rv = Inr addrs \<longrightarrow>
      (\<exists>kv. Outputs_Decode m rv = Inr (VMap kv) \<and> map_of kv ''0'' = Some (VAddresses addrs)))"
  by (auto simp: DecodeParticipants_error dest: DecodeParticipants_Inr)

subsection \<open>Transitions that answer alike\<close>



section \<open>Probation exclusion\<close>




section \<open>Containment and probation membership\<close>

text \<open>
  C4: whenever Get(r) succeeds with the list addrs, Contains(a, r) succeeds and is true
  exactly when a occurs in addrs; an absent address gives false, not an error.
\<close>

theorem C4_contains_consistent:
  assumes "snd (Get asq now now' r) = Inr addrs"
  shows "snd (Contains asq now now' a r) = Inr (a \<in> set addrs)"
  using assms by (simp add: Contains_def snd_io_bind io_pure_def containsLoop_iff)

theorem C4_contains_consistent_witness:
  "snd (Contains exEnv 100 200 addrB Sequencer) = Inr False \<and>
   snd (Contains exEnv 100 200 addrC Sequencer) = Inr True"
  using C4_contains_consistent [OF ex_Get_Sequencer, of addrB]
    C4_contains_consistent [OF ex_Get_Sequencer, of addrC]
  by (simp add: ex_addrs_distinct)



section \<open>Watchtowers are not filtered\<close>



section \<open>Stake amounts\<close>

text \<open>
  C8: when the context is built and the contract call returns, without failure, the
  big-endian buffer of the unsigned integer V (n bytes, V below 256 to the n; a 256-bit
  value is n = 32), GetBalance returns exactly V, and GetTotalStakedAmount likewise for
  its own call; V = 0 gives the result 0, not an error; the results are not negative.
\<close>

theorem C8_balance_decode:
  assumes gas: "CalculateGasLimit asq (Number (Header asq) + 1) = Inr g"
    and miner: "miner = BytesToAddress (Miner (Header asq))"
    and t: "BeginTxn asq (StateRoot (Header asq)) (nextHeader (Header asq) now) miner = Inr t"
    and mb: "Methods asq ''GetCurrentAccountStakedAmount'' = Some mb"
    and enc: "Inputs_Encode mb [(''addr'', Bytes a)] = Inr enc"
    and rb: "Apply asq t (readCall asq t g miner (ID mb @ enc)) =
               Inr \<lparr>ReturnValue = be_encode n V, Err = None\<rparr>"
    and mt: "Methods asq ''GetCurrentStakedAmount'' = Some mt"
    and rt: "Apply asq t (readCall asq t g miner (ID mt)) =
               Inr \<lparr>ReturnValue = be_encode n' V', Err = None\<rparr>"
    and V: "V < 256 ^ n" and V': "V' < 256 ^ n'"
  shows "snd (GetBalance asq now a) = Inr (int V) \<and>
         snd (GetTotalStakedAmount asq now) = Inr (int V') \<and>
         (\<forall>v. snd (GetBalance asq now a) = Inr v \<or>
              snd (GetTotalStakedAmount asq now) = Inr v \<longrightarrow> 0 \<le> v)"
proof -
  have t': "BeginTxn asq (StateRoot (Header asq))
      \<lparr>ParentHash = Hash (Header asq), Number = Number (Header asq) + 1,
       Miner = Bytes (BytesToAddress (Miner (Header asq))), Nonce = zeroNonce,
       GasLimit = GasLimit (Header asq), Timestamp = now, StateRoot = zeroHash, Hash = zeroHash\<rparr>
      (BytesToAddress (Miner (Header asq))) = Inr t"
    using t by (simp add: nextHeader_def miner)
  have qb: "snd (QueryParticipantBalance asq t g miner a) = Inr (int V)"
    using mb enc rb V
    by (simp add: QueryParticipantBalance_def snd_io_bind io_prims Let_def readCall_def
        Failed_def SetBytes_be_encode)
  have qt: "snd (QueryParticipantTotalStakedAmount asq t g miner) = Inr (int V')"
    using mt rt V'
    by (simp add: QueryParticipantTotalStakedAmount_def snd_io_bind io_prims Let_def
        readCall_def Failed_def SetBytes_be_encode)
  have b: "snd (GetBalance asq now a) = Inr (int V)"
    using gas t' qb by (simp add: GetBalance_def snd_io_bind io_prims Let_def miner)
  have tt: "snd (GetTotalStakedAmount asq now) = Inr (int V')"
    using gas t' qt by (simp add: GetTotalStakedAmount_def snd_io_bind io_prims Let_def miner)
  show ?thesis using b tt by simp
qed

theorem C8_balance_decode_witness:
  "snd (GetBalance exEnv 100 addrA) = Inr 1000000000000000000 \<and>
   snd (GetTotalStakedAmount exEnv 100) = Inr 0"
proof -
  have gas: "CalculateGasLimit exEnv (Number (Header exEnv) + 1) = Inr 8000"
    by (simp add: ex_fields)
  have t: "BeginTxn exEnv (StateRoot (Header exEnv)) (nextHeader (Header exEnv) 100)
      (BytesToAddress (Miner (Header exEnv))) = Inr 100"
    by (simp add: ex_fields nextHeader_def)
  have mb: "Methods exEnv ''GetCurrentAccountStakedAmount'' = Some (exMethod [4] [])"
    by (simp add: ex_fields exMethods_def)
  have enc: "Inputs_Encode (exMethod [4] []) [(''addr'', Bytes addrA)] = Inr addrA"
    by (simp add: exMethod_def Bytes_def)
  have rb: "Apply exEnv 100 (readCall exEnv 100 8000 (BytesToAddress (Miner (Header exEnv)))
        (ID (exMethod [4] []) @ addrA)) =
      Inr \<lparr>ReturnValue = be_encode 32 1000000000000000000, Err = None\<rparr>"
    by (simp add: ex_fields exApply_def readCall_def exMethod_def)
  have mt: "Methods exEnv ''GetCurrentStakedAmount'' = Some (exMethod [5] [])"
    by (simp add: ex_fields exMethods_def)
  have rt: "Apply exEnv 100 (readCall exEnv 100 8000 (BytesToAddress (Miner (Header exEnv)))
        (ID (exMethod [5] []))) = Inr \<lparr>ReturnValue = be_encode 32 0, Err = None\<rparr>"
    by (simp add: ex_fields exApply_def readCall_def exMethod_def)
  have V: "(1000000000000000000::nat) < 256 ^ 32" by simp
  have V': "(0::nat) < 256 ^ 32" by simp
  from C8_balance_decode [OF gas refl t mb enc rb mt rt V V']
  show ?thesis by simp
qed

section \<open>Failures are returned, never replaced\<close>

text \<open>
  C3: in Get(Sequencer) each step that can fail (the gas-limit calculation, BeginTxn,
  the role query, the second gas-limit calculation, the second BeginTxn, the probation
  query) makes the whole operation return that step's error and no list: in particular,
  when the probation query fails after the role query returned R, R is not returned.
  Get(WatchTower), InProbation, GetBalance and GetTotalStakedAmount return the error of
  their failing step in the same way, and Contains returns the error of Get. Each query
  in turn returns an error when its method is missing from the ABI, when the argument
  cannot be encoded, when Apply returns an error, when the result is marked failed, and
  when the decoding fails; DecodeParticipants returns a list, empty or not, only when
  the buffer decodes to a map whose entry "0" is that list of addresses.
\<close>

theorem C3_fault_isolation:
  assumes miner: "miner = BytesToAddress (Miner (Header asq))"
    and gas: "gas = CalculateGasLimit asq (Number (Header asq) + 1)"
    and B: "B = BeginTxn asq (StateRoot (Header asq)) (nextHeader (Header asq) now) miner"
    and gas2: "gas2 = CalculateGasLimit2 asq (Number (Header2 asq) + 1)"
    and B2: "B2 = BeginTxn2 asq (StateRoot (Header2 asq))
                  (secondHeader (Header2 asq) miner now') miner"
  shows
   "((gas = Inl e \<longrightarrow> snd (Get asq now now' Sequencer) = Inl e) \<and>
    (\<forall>g. gas = Inr g \<longrightarrow>
       (B = Inl e \<longrightarrow> snd (Get asq now now' Sequencer) = Inl e) \<and>
       (\<forall>t1. B = Inr t1 \<longrightarrow>
          (snd (QuerySequencers asq t1 g miner) = Inl e \<longrightarrow> snd (Get asq now now' Sequencer) = Inl e) \<and>
          (\<forall>R. snd (QuerySequencers asq t1 g miner) = Inr R \<longrightarrow>
             (gas2 = Inl e \<longrightarrow> snd (Get asq now now' Sequencer) = Inl e) \<and>
             (\<forall>g2. gas2 = Inr g2 \<longrightarrow>
                (B2 = Inl e \<longrightarrow> snd (Get asq now now' Sequencer) = Inl e) \<and>
                (\<forall>t2. B2 = Inr t2 \<longrightarrow>
                   (snd (QuerySequencersInProbation asq t2 g2 miner) = Inl e \<longrightarrow>
                      snd (Get asq now now' Sequencer) = Inl e))))))) \<and>
    ((gas = Inl e \<longrightarrow> snd (Get asq now now' WatchTower) = Inl e) \<and>
    (\<forall>g. gas = Inr g \<longrightarrow>
       (B = Inl e \<longrightarrow> snd (Get asq now now' WatchTower) = Inl e) \<and>
       (\<forall>t. B = Inr t \<longrightarrow>
          (snd (QueryWatchtower asq t g miner) = Inl e \<longrightarrow> snd (Get asq now now' WatchTower) = Inl e)))) \<and>
    ((gas = Inl e \<longrightarrow> snd (InProbation asq now a) = Inl e) \<and>
    (\<forall>g. gas = Inr g \<longrightarrow>
       (B = Inl e \<longrightarrow> snd (InProbation asq now a) = Inl e) \<and>
       (\<forall>t. B = Inr t \<longrightarrow>
          (snd (QuerySequencersInProbation asq t g miner) = Inl e \<longrightarrow> snd (InProbation asq now a) = Inl e)))) \<and>
    ((gas = Inl e \<longrightarrow> snd (GetBalance asq now a) = Inl e) \<and>
    (\<forall>g. gas = Inr g \<longrightarrow>
       (B = Inl e \<longrightarrow> snd (GetBalance asq now a) = Inl e) \<and>
       (\<forall>t. B = Inr t \<longrightarrow>
          (snd (QueryParticipantBalance asq t g miner a) = Inl e \<longrightarrow> snd (GetBalance asq now a) = Inl e)))) \<and>
    ((gas = Inl e \<longrightarrow> snd (GetTotalStakedAmount asq now) = Inl e) \<and>
    (\<forall>g. gas = Inr g \<longrightarrow>
       (B = Inl e \<longrightarrow> snd (GetTotalStakedAmount asq now) = Inl e) \<and>
       (\<forall>t. B = Inr t \<longrightarrow>
          (snd (QueryParticipantTotalStakedAmount asq t g miner) = Inl e \<longrightarrow> snd (GetTotalStakedAmount asq now) = Inl e)))) \<and>
    ((\<forall>r. snd (Get asq now now' r) = Inl e \<longrightarrow> snd (Contains asq now now' a r) = Inl e)) \<and>
    ((Methods asq ''GetCurrentSequencers'' = None \<longrightarrow> snd (QuerySequencers asq t g from) = Inl (MethodNotInABI ''GetCurrentSequencers'')) \<and>
    (\<forall>m. Methods asq ''GetCurrentSequencers'' = Some m \<longrightarrow>
       (Apply asq t (readCall asq t g from (ID m)) = Inl e \<longrightarrow> snd (QuerySequencers asq t g from) = Inl e) \<and>
       (\<forall>res. Apply asq t (readCall asq t g from (ID m)) = Inr res \<longrightarrow>
          (Err res = Some e \<longrightarrow> snd (QuerySequencers asq t g from) = Inl e) \<and>
          (Err res = None \<longrightarrow> snd (QuerySequencers asq t g from) = DecodeParticipants m (ReturnValue res))))) \<and>
    ((Methods asq ''GetCurrentSequencersInProbation'' = None \<longrightarrow> snd (QuerySequencersInProbation asq t g from) = Inl (MethodNotInABI ''GetCurrentSequencersInProbation'')) \<and>
    (\<forall>m. Methods asq ''GetCurrentSequencersInProbation'' = Some m \<longrightarrow>
       (Apply asq t (readCall asq t g from (ID m)) = Inl e \<longrightarrow> snd (QuerySequencersInProbation asq t g from) = Inl e) \<and>
       (\<forall>res. Apply asq t (readCall asq t g from (ID m)) = Inr res \<longrightarrow>
          (Err res = Some e \<longrightarrow> snd (QuerySequencersInProbation asq t g from) = Inl e) \<and>
          (Err res = None \<longrightarrow> snd (QuerySequencersInProbation asq t g from) = DecodeParticipants m (ReturnValue res))))) \<and>
    ((Methods asq ''GetCurrentWatchtowers'' = None \<longrightarrow> snd (QueryWatchtower asq t g from) = Inl (MethodNotInABI ''GetCurrentWatchtowers'')) \<and>
    (\<forall>m. Methods asq ''GetCurrentWatchtowers'' = Some m \<longrightarrow>
       (Apply asq t (readCall asq t g from (ID m)) = Inl e \<longrightarrow> snd (QueryWatchtower asq t g from) = Inl e) \<and>
       (\<forall>res. Apply asq t (readCall asq t g from (ID m)) = Inr res \<longrightarrow>
          (Err res = Some e \<longrightarrow> snd (QueryWatchtower asq t g from) = Inl e) \<and>
          (Err res = None \<longrightarrow> snd (QueryWatchtower asq t g from) = DecodeParticipants m (ReturnValue res))))) \<and>
    ((Methods asq ''GetCurrentAccountStakedAmount'' = None \<longrightarrow> snd (QueryParticipantBalance asq t g from a) = Inl (MethodNotInABI ''GetCurrentAccountStakedAmount'')) \<and>
    (\<forall>m. Methods asq ''GetCurrentAccountStakedAmount'' = Some m \<longrightarrow>
       (Inputs_Encode m [(''addr'', Bytes a)] = Inl e \<longrightarrow> snd (QueryParticipantBalance asq t g from a) = Inl e) \<and>
       (\<forall>enc. Inputs_Encode m [(''addr'', Bytes a)] = Inr enc \<longrightarrow>
          (Apply asq t (readCall asq t g from (ID m @ enc)) = Inl e \<longrightarrow> snd (QueryParticipantBalance asq t g from a) = Inl e) \<and>
          (\<forall>res. Apply asq t (readCall asq t g from (ID m @ enc)) = Inr res \<longrightarrow>
             (Err res = Some e \<longrightarrow> snd (QueryParticipantBalance asq t g from a) = Inl e) \<and>
             (Err res = None \<longrightarrow> snd (QueryParticipantBalance asq t g from a) = Inr (SetBytes (ReturnValue res))))))) \<and>
    ((Methods asq ''GetCurrentStakedAmount'' = None \<longrightarrow> snd (QueryParticipantTotalStakedAmount asq t g from) = Inl (MethodNotInABI ''GetCurrentStakedAmount'')) \<and>
    (\<forall>m. Methods asq ''GetCurrentStakedAmount'' = Some m \<longrightarrow>
       (Apply asq t (readCall asq t g from (ID m)) = Inl e \<longrightarrow> snd (QueryParticipantTotalStakedAmount asq t g from) = Inl e) \<and>
       (\<forall>res. Apply asq t (readCall asq t g from (ID m)) = Inr res \<longrightarrow>
          (Err res = Some e \<longrightarrow> snd (QueryParticipantTotalStakedAmount asq t g from) = Inl e) \<and>
          (Err res = None \<longrightarrow> snd (QueryParticipantTotalStakedAmount asq t g from) = Inr (SetBytes (ReturnValue res)))))) \<and>
    ((Outputs_Decode m rv = Inl e \<longrightarrow> DecodeParticipants m rv = Inl e) \<and>
    (\<forall>addrs. DecodeParticipants m rv = Inr addrs \<longrightarrow>
       (\<exists>kv. Outputs_Decode m rv = Inr (VMap kv) \<and> map_of kv ''0'' = Some (VAddresses addrs))))"
  unfolding B B2 gas gas2 miner
  by (rule conjI [OF Get_Sequencer_failures conjI [OF Get_WatchTower_failures conjI [OF InProbation_failures conjI [OF GetBalance_failures conjI [OF GetTotalStakedAmount_failures conjI [OF Contains_failures conjI [OF QuerySequencers_failures conjI [OF QuerySequencersInProbation_failures conjI [OF QueryWatchtower_failures conjI [OF QueryParticipantBalance_failures conjI [OF QueryParticipantTotalStakedAmount_failures DecodeParticipants_failures]]]]]]]]]]])

theorem C3_fault_isolation_witness:
  "snd (QuerySequencers exEnvProbationFault 100 8000 (BytesToAddress (Miner exHead))) =
     Inr [addrA, addrB, addrC] \<and>
   snd (QuerySequencersInProbation exEnvProbationFault 200 8000 (BytesToAddress (Miner exHead)))
     = Inl (Foreign ''engine fault'') \<and>
   snd (Get exEnvProbationFault 100 200 Sequencer) = Inl (Foreign ''engine fault'')"
proof -
  have h: "Header exEnvProbationFault = exHead"
    by (simp add: exFault_fields)
  have gas: "CalculateGasLimit exEnvProbationFault (Number (Header exEnvProbationFault) + 1)
      = Inr 8000"
    by (simp add: exFault_fields)
  have t1: "BeginTxn exEnvProbationFault (StateRoot (Header exEnvProbationFault))
      (nextHeader (Header exEnvProbationFault) 100)
      (BytesToAddress (Miner (Header exEnvProbationFault))) = Inr 100"
    by (simp add: exFault_fields nextHeader_def)
  have gas2: "CalculateGasLimit2 exEnvProbationFault (Number (Header2 exEnvProbationFault) + 1)
      = Inr 8000"
    by (simp add: exFault_fields)
  have t2: "BeginTxn2 exEnvProbationFault (StateRoot (Header2 exEnvProbationFault))
      (secondHeader (Header2 exEnvProbationFault)
        (BytesToAddress (Miner (Header exEnvProbationFault))) 200)
      (BytesToAddress (Miner (Header exEnvProbationFault))) = Inr 200"
    by (simp add: exFault_fields secondHeader_def)
  have mp: "Methods exEnvProbationFault ''GetCurrentSequencersInProbation'' =
      Some (exMethod [2] [addrB])"
    by (simp add: exFault_fields exMethods_def)
  have a2: "Apply exEnvProbationFault 200
      (readCall exEnvProbationFault 200 8000
        (BytesToAddress (Miner (Header exEnvProbationFault))) (ID (exMethod [2] [addrB]))) =
      Inl (Foreign ''engine fault'')"
    by (simp add: exFault_fields readCall_def exMethod_def)
  note th = C3_fault_isolation [OF refl refl refl refl refl, where asq = exEnvProbationFault
      and e = "Foreign ''engine fault''" and now = 100 and now' = 200 and t = 200
      and g = 8000 and ?from = "BytesToAddress (Miner (Header exEnvProbationFault))"]
  note q = th [THEN conjunct2, THEN conjunct2, THEN conjunct2, THEN conjunct2, THEN conjunct2,
      THEN conjunct2, THEN conjunct2, THEN conjunct1]
  note q1 = q [THEN conjunct2, rule_format, OF mp]
  have qP: "snd (QuerySequencersInProbation exEnvProbationFault 200 8000
      (BytesToAddress (Miner (Header exEnvProbationFault)))) = Inl (Foreign ''engine fault'')"
    by (rule q1 [THEN conjunct1, rule_format, OF a2])
  note s0 = th [THEN conjunct1]
  note s1 = s0 [THEN conjunct2, rule_format, OF gas]
  note s2 = s1 [THEN conjunct2, rule_format, OF t1]
  note s3 = s2 [THEN conjunct2, rule_format, OF exFault_QuerySequencers]
  note s4 = s3 [THEN conjunct2, rule_format, OF gas2]
  note s5 = s4 [THEN conjunct2, rule_format, OF t2]
  have "snd (Get exEnvProbationFault 100 200 Sequencer) = Inl (Foreign ''engine fault'')"
    by (rule s5 [OF qP])
  then show ?thesis
    using exFault_QuerySequencers [of 100 8000] qP by (simp add: h)
qed

section \<open>An unsupported node type\<close>

text \<open>
  C2, as the code has it: for a node type other than Sequencer and WatchTower, Get reads
  the head and the clock, calls the gas-limit calculator and, when that succeeds, opens
  a transition; only then does it reject the node type. It returns the error of the
  gas-limit calculation or of BeginTxn when one of them fails, and the node type
  mismatch error otherwise; it never returns a list and applies no contract call.
\<close>

theorem C2_unsupported_node_type:
  "snd (Get asq now now' (OtherNodeType s)) =
     (case CalculateGasLimit asq (Number (Header asq) + 1) of
        Inl e \<Rightarrow> Inl e
      | Inr g \<Rightarrow>
          (case BeginTxn asq (StateRoot (Header asq)) (nextHeader (Header asq) now)
                  (BytesToAddress (Miner (Header asq))) of
             Inl e \<Rightarrow> Inl e
           | Inr t \<Rightarrow> Inl (NodeTypeMismatch s))) \<and>
   (\<forall>addrs. snd (Get asq now now' (OtherNodeType s)) \<noteq> Inr addrs) \<and>
   fst (Get asq now now' (OtherNodeType s)) =
     [EvHeader, EvNow, EvCalculateGasLimit (Number (Header asq) + 1)] @
     (case CalculateGasLimit asq (Number (Header asq) + 1) of
        Inl e \<Rightarrow> []
      | Inr g \<Rightarrow> [EvBeginTxn (StateRoot (Header asq)) (nextHeader (Header asq) now)
                   (BytesToAddress (Miner (Header asq)))])"
  by (simp add: Get_def snd_io_bind fst_io_bind io_prims Let_def nextHeader_def
      split: sum.splits)

text \<open>
  Get("Validator") on a chain store that cannot compute the gas limit returns the chain
  store's error after three calls; on the working chain it opens a transition first.
\<close>

theorem C2_counterexample:
  "Get exEnvNoGas 100 200 (OtherNodeType ''Validator'') =
     ([EvHeader, EvNow, EvCalculateGasLimit 42], Inl (Foreign ''missing history'')) \<and>
   Foreign ''missing history'' \<noteq> NodeTypeMismatch ''Validator'' \<and>
   fst (Get exEnv 100 200 (OtherNodeType ''Validator'')) =
     [EvHeader, EvNow, EvCalculateGasLimit 42,
      EvBeginTxn (StateRoot exHead) (nextHeader exHead 100) (BytesToAddress (Miner exHead))]"
  by (simp add: Get_def io_bind_def io_prims Let_def exEnvNoGas_def exEnv_def exHead_def
      nextHeader_def)

section \<open>The speculative header\<close>

text \<open>
  C6, as the code has it: when the gas-limit calculation succeeds, GetBalance,
  GetTotalStakedAmount, InProbation and Get(WatchTower) open exactly one transition, and
  Get(Sequencer) one or two, each at the state root of the head, for the head's miner as
  an address, with a header whose parent hash is the head's hash, whose number is the
  head's number plus one, whose miner is the head's miner as a 20-byte address (the
  head's miner itself when that has 20 bytes), whose nonce is zero and whose gas limit
  is the gas limit of the head. Contains makes the calls of Get. The second transition
  of Get(Sequencer) is built in the same way from the head as it is read again, with the
  miner of the first read; it is at the same state root, with the same header but for
  the timestamp, when the head read again is the head read first.
\<close>

theorem C6_next_header:
  assumes gas: "CalculateGasLimit asq (Number (Header asq) + 1) = Inr g"
    and miner: "miner = BytesToAddress (Miner (Header asq))"
    and root: "root = StateRoot (Header asq)"
    and h: "h = nextHeader (Header asq) now"
    and root': "root' = StateRoot (Header2 asq)"
    and h': "h' = secondHeader (Header2 asq) miner now'"
  shows
   "begin_txns (fst (GetBalance asq now a)) = [(root, h, miner)] \<and>
    begin_txns (fst (GetTotalStakedAmount asq now)) = [(root, h, miner)] \<and>
    begin_txns (fst (InProbation asq now a)) = [(root, h, miner)] \<and>
    begin_txns (fst (Get asq now now' WatchTower)) = [(root, h, miner)] \<and>
    (begin_txns (fst (Get asq now now' Sequencer)) = [(root, h, miner)] \<or>
     begin_txns (fst (Get asq now now' Sequencer)) = [(root, h, miner), (root', h', miner)]) \<and>
    fst (Contains asq now now' a r) = fst (Get asq now now' r) \<and>
    ParentHash h = Hash (Header asq) \<and> ParentHash h' = Hash (Header2 asq) \<and>
    Number h = Number (Header asq) + 1 \<and> Number h' = Number (Header2 asq) + 1 \<and>
    Miner h = BytesToAddress (Miner (Header asq)) \<and> Miner h' = Miner h \<and>
    (length (Miner (Header asq)) = 20 \<longrightarrow> Miner h = Miner (Header asq)) \<and>
    Nonce h = replicate 8 0 \<and> Nonce h' = replicate 8 0 \<and>
    GasLimit h = GasLimit (Header asq) \<and> GasLimit h' = GasLimit (Header2 asq) \<and>
    Timestamp h = now \<and> Timestamp h' = now' \<and>
    (Header2 asq = Header asq \<longrightarrow> root' = root \<and> h' = nextHeader (Header asq) now')"
proof -
  have b: "begin_txns (fst (GetBalance asq now a)) = [(root, h, miner)]"
    using gas
    by (simp add: GetBalance_def fst_io_bind snd_io_bind io_prims Let_def hdr_unfold
        begin_txns_queries miner root h split: sum.splits)
  have tt: "begin_txns (fst (GetTotalStakedAmount asq now)) = [(root, h, miner)]"
    using gas
    by (simp add: GetTotalStakedAmount_def fst_io_bind snd_io_bind io_prims Let_def hdr_unfold
        begin_txns_queries miner root h split: sum.splits)
  have p: "begin_txns (fst (InProbation asq now a)) = [(root, h, miner)]"
    using gas
    by (simp add: InProbation_def fst_io_bind snd_io_bind io_prims Let_def hdr_unfold
        begin_txns_queries miner root h split: sum.splits)
  have w: "begin_txns (fst (Get asq now now' WatchTower)) = [(root, h, miner)]"
    using gas
    by (simp add: Get_def fst_io_bind snd_io_bind io_prims Let_def hdr_unfold
        begin_txns_queries miner root h split: sum.splits)
  have s: "begin_txns (fst (Get asq now now' Sequencer)) = [(root, h, miner)] \<or>
     begin_txns (fst (Get asq now now' Sequencer)) = [(root, h, miner), (root', h', miner)]"
    using gas begin_txns_QueryActiveSequencers [of asq now' _ g miner]
    by (auto simp: Get_def fst_io_bind snd_io_bind io_prims Let_def hdr_unfold
        begin_txns_append miner root h root' h' split: sum.splits)
  have c: "fst (Contains asq now now' a r) = fst (Get asq now now' r)"
    by (simp add: Contains_def fst_io_bind io_pure_def split: sum.splits)
  have f: "ParentHash h = Hash (Header asq) \<and> ParentHash h' = Hash (Header2 asq) \<and>
    Number h = Number (Header asq) + 1 \<and> Number h' = Number (Header2 asq) + 1 \<and>
    Miner h = BytesToAddress (Miner (Header asq)) \<and> Miner h' = Miner h \<and>
    (length (Miner (Header asq)) = 20 \<longrightarrow> Miner h = Miner (Header asq)) \<and>
    Nonce h = replicate 8 0 \<and> Nonce h' = replicate 8 0 \<and>
    GasLimit h = GasLimit (Header asq) \<and> GasLimit h' = GasLimit (Header2 asq) \<and>
    Timestamp h = now \<and> Timestamp h' = now'"
    by (simp add: h h' miner nextHeader_def secondHeader_def Bytes_def BytesToAddress_def
        zeroNonce_def)
  have same: "Header2 asq = Header asq \<longrightarrow> root' = root \<and> h' = nextHeader (Header asq) now'"
    by (simp add: root root' h' miner nextHeader_second)
  show ?thesis using b tt p w s c f same by blast
qed

theorem C6_next_header_witness:
  "begin_txns (fst (GetBalance exEnv 100 addrA)) =
     [(StateRoot exHead, nextHeader exHead 100, BytesToAddress (Miner exHead))] \<and>
   begin_txns (fst (Get exEnv 100 200 WatchTower)) =
     [(StateRoot exHead, nextHeader exHead 100, BytesToAddress (Miner exHead))] \<and>
   Number (nextHeader exHead 100) = 42 \<and> GasLimit (nextHeader exHead 100) = 5000 \<and>
   Miner (nextHeader exHead 100) = Miner exHead"
proof -
  have gas: "CalculateGasLimit exEnv (Number (Header exEnv) + 1) = Inr 8000"
    by (simp add: ex_fields)
  have e: "Header exEnv = exHead"
    by (simp add: ex_fields)
  have len: "length (Miner exHead) = 20"
    by (simp add: exHead_def)
  have n: "Number exHead + 1 = 42" "GasLimit exHead = 5000"
    by (simp_all add: exHead_def)
  note th = C6_next_header [OF gas refl refl refl refl refl, where now = 100 and a = addrA
      and now' = 200 and r = Sequencer, unfolded e]
  from th len
  have "begin_txns (fst (GetBalance exEnv 100 addrA)) =
      [(StateRoot exHead, nextHeader exHead 100, BytesToAddress (Miner exHead))] \<and>
    begin_txns (fst (Get exEnv 100 200 WatchTower)) =
      [(StateRoot exHead, nextHeader exHead 100, BytesToAddress (Miner exHead))] \<and>
    Number (nextHeader exHead 100) = Number exHead + 1 \<and>
    GasLimit (nextHeader exHead 100) = GasLimit exHead \<and>
    Miner (nextHeader exHead 100) = Miner exHead"
    by blast
  then show ?thesis by (simp only: n)
qed

text \<open>
  On the example chain the header passed to BeginTxn has the head's gas limit 5000,
  while the gas-limit calculator answers 8000 for its number 42.
\<close>

theorem C6_counterexample:
  "begin_txns (fst (GetTotalStakedAmount exEnv 100)) =
     [(replicate 32 3,
       \<lparr>ParentHash = replicate 32 4, Number = 42, Miner = replicate 19 0 @ [9],
        Nonce = replicate 8 0, GasLimit = 5000, Timestamp = 100,
        StateRoot = replicate 32 0, Hash = replicate 32 0\<rparr>,
       replicate 19 0 @ [9])] \<and>
   CalculateGasLimit exEnv 42 = Inr 8000"
  by (simp add: GetTotalStakedAmount_def fst_io_bind snd_io_bind io_prims Let_def
      begin_txns_queries ex_fields exHead_def BytesToAddress_def Bytes_def zeroNonce_def
      zeroHash_def split: sum.splits)

section \<open>The timestamp\<close>



section \<open>DumbActiveParticipants answers with constants\<close>

text \<open>
  C10: every method of DumbActiveParticipants answers with a constant, whatever its
  arguments: Contains and InProbation give (true, nil); Get, GetBalance and
  GetTotalStakedAmount give (nil, nil).
\<close>

theorem C10_dumb_constant:
  "Dumb_Contains a nodeType = Inr True \<and> Dumb_InProbation a = Inr True \<and>
   Dumb_Get nodeType = Inr None \<and> Dumb_GetBalance a = Inr None \<and>
   Dumb_GetTotalStakedAmount = Inr None"
  by (simp add: Dumb_Contains_def Dumb_InProbation_def Dumb_Get_def Dumb_GetBalance_def
      Dumb_GetTotalStakedAmount_def)

end
